theory Spec2Isabelle
  imports Main "HOL-Library.Word"
begin

section \<open>Errors\<close>

text \<open>
  A Go \<^verbatim>\<open>error\<close> is an interface value: \<^verbatim>\<open>nil\<close> or a dynamic value. The dynamic
  values that the package and its tests build are
  \<^item> \<^verbatim>\<open>errors.New(msg)\<close>: a pointer, compared by identity (the number) with a message;
  \<^item> \<^verbatim>\<open>unrecoverableError{err}\<close>, the marker struct of the package; it has a method
    \<^verbatim>\<open>Error\<close> and no method \<^verbatim>\<open>Unwrap\<close>; its field may hold \<^verbatim>\<open>nil\<close>;
  \<^item> an error that wraps another one and has \<^verbatim>\<open>Unwrap() error\<close>, as \<^verbatim>\<open>fmt.Errorf\<close> with
    \<^verbatim>\<open>%w\<close> builds (the string is its whole message);
  \<^item> \<^verbatim>\<open>context.Canceled\<close> and \<^verbatim>\<open>context.DeadlineExceeded\<close>;
  \<^item> \<^verbatim>\<open>Error\<close>, the slice type of the package, one slot per attempt; a slot may be \<^verbatim>\<open>nil\<close>.
\<close>

datatype error_value =
    errorString nat string
  | unrecoverableError "error_value option"
  | wrapError string error_value
  | Canceled
  | DeadlineExceeded
  | Error "error_value option list"

type_synonym error = "error_value option"

text \<open>The run-time panics that the code of the package can raise.\<close>

datatype panic =
    InterfaceConversion  \<comment> \<open>the type assertion \<^verbatim>\<open>err.(unrecoverableError)\<close> on another dynamic type\<close>
  | NilDereference       \<comment> \<open>a method call on a \<^verbatim>\<open>nil\<close> interface value\<close>
  | InvalidArgument      \<comment> \<open>\<^verbatim>\<open>rand.Int63n\<close> with an argument that is not positive\<close>
  | IndexOutOfRange      \<comment> \<open>a slice index beyond the length\<close>
  | MakeSliceLen         \<comment> \<open>\<^verbatim>\<open>make\<close> of a slice with a length out of range\<close>

definition UnrecoverableError :: "error \<Rightarrow> error_value" where
  "UnrecoverableError err = unrecoverableError err"

text \<open>
  \<^verbatim>\<open>errors.As(err, &ue)\<close> with \<^verbatim>\<open>ue\<close> of type \<^verbatim>\<open>unrecoverableError\<close>, on a value that is not
  \<^verbatim>\<open>nil\<close>: the walk stops with true at a value of the marker type, asks a value that has a
  method \<^verbatim>\<open>As\<close> (the slice type \<^verbatim>\<open>Error\<close>, whose method tries every slot), follows
  \<^verbatim>\<open>Unwrap\<close>, and ends with false at a value that has neither.
\<close>

fun errors_As_unrecoverable :: "error_value \<Rightarrow> bool" where
  "errors_As_unrecoverable (unrecoverableError _) = True"
| "errors_As_unrecoverable (wrapError _ e) = errors_As_unrecoverable e"
| "errors_As_unrecoverable (Error slots) =
     list_ex (\<lambda>v. case v of None \<Rightarrow> False | Some e \<Rightarrow> errors_As_unrecoverable e) slots"
| "errors_As_unrecoverable _ = False"

definition IsReconverableError :: "error \<Rightarrow> bool" where
  "IsReconverableError err =
     (case err of None \<Rightarrow> False | Some e \<Rightarrow> errors_As_unrecoverable e)"

text \<open>
  \<^verbatim>\<open>UnwrapUnrecoverableError\<close>: after the test, the type assertion panics unless the
  dynamic type of \<^verbatim>\<open>err\<close> itself is the marker type; the field of the marker is returned.
\<close>

definition UnwrapUnrecoverableError :: "error \<Rightarrow> panic + error" where
  "UnwrapUnrecoverableError err =
     (if IsReconverableError err then
        (case err of
           Some (unrecoverableError inner) \<Rightarrow> Inr inner
         | _ \<Rightarrow> Inl InterfaceConversion)
      else Inr err)"

subsection \<open>The message of an error\<close>

fun string_of_nat :: "nat \<Rightarrow> string" where
  "string_of_nat n =
     (if n < 10 then [''0123456789'' ! n]
      else string_of_nat (n div 10) @ [''0123456789'' ! (n mod 10)])"

fun join :: "string \<Rightarrow> string list \<Rightarrow> string" where
  "join sep [] = []"
| "join sep [s] = s"
| "join sep (s # t # ss) = s @ sep @ join sep (t # ss)"

text \<open>The results of a loop whose body may panic: the first panic, or every result.\<close>

fun collect :: "(panic + 'a) list \<Rightarrow> panic + 'a list" where
  "collect [] = Inr []"
| "collect (Inl p # rs) = Inl p"
| "collect (Inr x # rs) = (case collect rs of Inl p \<Rightarrow> Inl p | Inr xs \<Rightarrow> Inr (x # xs))"

text \<open>
  The method \<^verbatim>\<open>Error()\<close>. On the marker it calls the method of the wrapped value, on the
  slice type it calls the method of every slot in order; both calls panic on \<^verbatim>\<open>nil\<close>.
\<close>

fun error_Error :: "error_value \<Rightarrow> panic + string" where
  "error_Error (errorString _ msg) = Inr msg"
| "error_Error (unrecoverableError None) = Inl NilDereference"
| "error_Error (unrecoverableError (Some e)) = error_Error e"
| "error_Error (wrapError msg _) = Inr msg"
| "error_Error Canceled = Inr ''context canceled''"
| "error_Error DeadlineExceeded = Inr ''context deadline exceeded''"
| "error_Error (Error slots) =
     (case collect (map (\<lambda>v. case v of None \<Rightarrow> Inl NilDereference
                                     | Some e \<Rightarrow> error_Error e) slots) of
        Inl p \<Rightarrow> Inl p
      | Inr msgs \<Rightarrow>
          Inr (''Retry Error: '' @ [CHR 0x0A] @
               join [CHR 0x0A]
                 (map (\<lambda>(i, m). ''# '' @ string_of_nat i @ '': '' @ m)
                    (zip [0..<length msgs] msgs))))"

section \<open>The world outside the executor\<close>

text \<open>
  The operation and the callbacks are closures: they read and write the variables of the
  caller (\<open>vars\<close>). The generator of \<^verbatim>\<open>math/rand\<close> is global state: \<open>rand_raw\<close> is the
  sequence of raw values it yields and \<open>rand_pos\<close> how many have been drawn.
\<close>

record 'u world =
  vars :: 'u
  rand_raw :: "nat \<Rightarrow> nat"
  rand_pos :: nat

type_synonym duration = "64 word"

text \<open>
  \<^verbatim>\<open>rand.Int63n(n)\<close> panics when \<^verbatim>\<open>n <= 0\<close> and otherwise yields a value in \<^verbatim>\<open>[0, n)\<close>.
  Which value is the generator's business: here the next raw value reduced into the
  range (every value of the range is reached by some generator; the distribution is
  not modelled).
\<close>

definition rand_Int63n :: "duration \<Rightarrow> 'u world \<Rightarrow> panic + (duration \<times> 'u world)" where
  "rand_Int63n b w =
     (if sint b \<le> 0 then Inl InvalidArgument
      else Inr (word_of_nat (rand_raw w (rand_pos w) mod unat b),
                w\<lparr>rand_pos := rand_pos w + 1\<rparr>))"

text \<open>
  A \<^verbatim>\<open>context.Context\<close> is an interface value: \<^verbatim>\<open>nil\<close>, or a context. A context as the
  executor uses it: \<^verbatim>\<open>ctx.Err()\<close> read in the current world, and how the \<^verbatim>\<open>select\<close> between
  \<^verbatim>\<open>time.After(d)\<close> and \<^verbatim>\<open>ctx.Done()\<close> ends: true when the context is done first, with the
  world as it is when the \<^verbatim>\<open>select\<close> returns. Elapsed time itself is not modelled.
\<close>

record 'u Context =
  ctx_Err :: "'u world \<Rightarrow> error"
  ctx_Done_first :: "duration \<Rightarrow> 'u world \<Rightarrow> bool \<times> 'u world"

definition Background :: "'u Context option" where
  "Background = Some \<lparr>ctx_Err = (\<lambda>w. None), ctx_Done_first = (\<lambda>d w. (False, w))\<rparr>"

text \<open>The call \<^verbatim>\<open>ctx.Err()\<close> on an interface value: it panics on \<^verbatim>\<open>nil\<close>.\<close>

definition Context_Err :: "'u Context option \<Rightarrow> 'u world \<Rightarrow> panic + error" where
  "Context_Err c w = (case c of None \<Rightarrow> Inl NilDereference | Some x \<Rightarrow> Inr (ctx_Err x w))"

text \<open>
  \<^verbatim>\<open>make(Error, len)\<close>: the runtime panics when the slice would be larger than the
  largest allocation (\<^verbatim>\<open>maxAlloc\<close>, \<open>2 ^ 48\<close> bytes with 48 bits of heap address; an
  interface value takes 16 bytes), and otherwise yields \<open>len\<close> slots that hold \<^verbatim>\<open>nil\<close>.
\<close>

definition maxAlloc :: nat where
  "maxAlloc = 2 ^ 48"

definition make_Error :: "nat \<Rightarrow> panic + error list" where
  "make_Error len =
     (if 16 * len > maxAlloc then Inl MakeSliceLen else Inr (replicate len None))"

section \<open>Configuration\<close>

text \<open>
  The struct \<^verbatim>\<open>config\<close> holds a \<^verbatim>\<open>DelayFn\<close>, and a \<^verbatim>\<open>DelayFn\<close> takes a pointer to the struct.
  A HOL record cannot contain a function of itself, so the four fields that the delay
  functions and the delay options of the package read and write are a record of their
  own, the field \<open>delay\<close> of the configuration. The type \<^verbatim>\<open>config\<close> is unexported and no
  delay function of the package touches another field, so the attempt budget, the mode
  and the context are fixed once the options are applied. \<^verbatim>\<open>uint\<close> is 64 bits wide.
\<close>

record delay_config =
  randomTime :: duration
  maxDelayTime :: duration
  maxBackOffN :: "64 word"
  delayTime :: duration

type_synonym 'u DelayFn =
  "64 word \<Rightarrow> error \<Rightarrow> delay_config \<Rightarrow> 'u world \<Rightarrow>
   panic + (duration \<times> delay_config \<times> 'u world)"

type_synonym 'u OnRetryFn = "64 word \<Rightarrow> error \<Rightarrow> 'u world \<Rightarrow> 'u world"

type_synonym 'u RetryIfFn = "64 word \<Rightarrow> error \<Rightarrow> 'u world \<Rightarrow> bool \<times> 'u world"

record 'u config =
  attempts :: "64 word"
  onRetryFn :: "'u OnRetryFn"
  retryIfFn :: "'u RetryIfFn"
  delayFn :: "'u DelayFn"
  delay :: delay_config
  lastErrorOnly :: bool
  ctx :: "'u Context option"

type_synonym 'u Option = "'u config \<Rightarrow> 'u config"

type_synonym DelayOption = "delay_config \<Rightarrow> delay_config"

definition defaultAttempts :: "64 word" where
  "defaultAttempts = 10"

definition defaultOnRetryFn :: "'u OnRetryFn" where
  "defaultOnRetryFn n err w = w"

definition defaultRetryIfFn :: "'u RetryIfFn" where
  "defaultRetryIfFn n err w = (\<not> IsReconverableError err, w)"

definition defaultDelayFn :: "'u DelayFn" where
  "defaultDelayFn n err c w = Inr (0, c, w)"

definition newDefaultConfig :: "'u config" where
  "newDefaultConfig =
     \<lparr>attempts = defaultAttempts,
      onRetryFn = defaultOnRetryFn,
      retryIfFn = defaultRetryIfFn,
      delayFn = defaultDelayFn,
      delay = \<lparr>randomTime = 0, maxDelayTime = 2 ^ 63 - 1, maxBackOffN = 0, delayTime = 0\<rparr>,
      lastErrorOnly = False,
      ctx = Background\<rparr>"

subsection \<open>Delay policies\<close>

definition SetMaxDelayTimeFn :: "duration \<Rightarrow> DelayOption" where
  "SetMaxDelayTimeFn t c = c\<lparr>maxDelayTime := t\<rparr>"

definition SetFixTimeFn :: "duration \<Rightarrow> DelayOption" where
  "SetFixTimeFn fixDelayTime c = c\<lparr>delayTime := fixDelayTime\<rparr>"

definition FixDelayFn :: "'u DelayFn" where
  "FixDelayFn n err c w = Inr (delayTime c, c, w)"

definition SetRamdomTimeFn :: "duration \<Rightarrow> DelayOption" where
  "SetRamdomTimeFn t c = c\<lparr>randomTime := t\<rparr>"

definition RandomDelayFn :: "'u DelayFn" where
  "RandomDelayFn n err c w =
     (case rand_Int63n (randomTime c) w of
        Inl p \<Rightarrow> Inl p
      | Inr (r, w') \<Rightarrow> Inr (r, c, w'))"

definition SetBackOffBeginTimeFn :: "duration \<Rightarrow> DelayOption" where
  "SetBackOffBeginTimeFn backOffBeginTime c = c\<lparr>delayTime := backOffBeginTime\<rparr>"

text \<open>
  \<^verbatim>\<open>BackOffDelayFn\<close>. The expression
  \<^verbatim>\<open>uint(math.Floor(math.Log2(float64(c.delayTime))))\<close> is floating-point arithmetic of the
  standard library; it is the parameter \<open>log2floor\<close>. The subtraction from 62 and the
  comparison of \<^verbatim>\<open>n\<close> are unsigned 64-bit arithmetic, and the shift is the shift of
  \<^verbatim>\<open>int64\<close> (a count of 64 or more yields 0).
\<close>

definition BackOffDelayFn :: "(duration \<Rightarrow> 64 word) \<Rightarrow> 'u DelayFn" where
  "BackOffDelayFn log2floor n err c w =
     (let max = (62 :: 64 word);
          c1 = (if delayTime c = 0 then c\<lparr>delayTime := 1\<rparr> else c);
          c2 = (if maxBackOffN c1 = 0
                then c1\<lparr>maxBackOffN := max - log2floor (delayTime c1)\<rparr> else c1);
          n1 = (if n > maxBackOffN c2 then maxBackOffN c2 else n)
      in Inr (push_bit (unat n1) (delayTime c2), c2, w))"

text \<open>The exact value of the floating-point expression on a positive duration.\<close>

fun ilog2 :: "nat \<Rightarrow> nat" where
  "ilog2 n = (if n < 2 then 0 else Suc (ilog2 (n div 2)))"

definition exact_log2floor :: "duration \<Rightarrow> 64 word" where
  "exact_log2floor d = word_of_nat (ilog2 (unat d))"

fun CombineDelayFn_loop ::
  "'u DelayFn list \<Rightarrow> 64 word \<Rightarrow> error \<Rightarrow> duration \<Rightarrow> delay_config \<Rightarrow> 'u world \<Rightarrow>
   panic + (duration \<times> delay_config \<times> 'u world)" where
  "CombineDelayFn_loop [] n e duration c w = Inr (duration, c, w)"
| "CombineDelayFn_loop (df # dfs) n e duration c w =
     (case df n e c w of
        Inl p \<Rightarrow> Inl p
      | Inr (d, c', w') \<Rightarrow> CombineDelayFn_loop dfs n e (duration + d) c' w')"

definition CombineDelayFn :: "'u DelayFn list \<Rightarrow> 'u DelayFn" where
  "CombineDelayFn delayFns n e c w = CombineDelayFn_loop delayFns n e 0 c w"

subsection \<open>Options\<close>

text \<open>The closure that \<^verbatim>\<open>WithDelayFn\<close> installs: the policy, then the ceiling.\<close>

definition WithDelayFn_closure :: "'u DelayFn \<Rightarrow> 'u DelayFn" where
  "WithDelayFn_closure df n e c w =
     (case df n e c w of
        Inl p \<Rightarrow> Inl p
      | Inr (t, c', w') \<Rightarrow>
          if sint t > sint (maxDelayTime c') then Inr (maxDelayTime c', c', w')
          else Inr (t, c', w'))"

definition WithDelayFn :: "'u DelayFn \<Rightarrow> DelayOption list \<Rightarrow> 'u Option" where
  "WithDelayFn df opts c =
     c\<lparr>delay := fold (\<lambda>opt d. opt d) opts (delay c), delayFn := WithDelayFn_closure df\<rparr>"

definition WithContext :: "'u Context option \<Rightarrow> 'u Option" where
  "WithContext x c = c\<lparr>ctx := x\<rparr>"

definition WithAttempts :: "64 word \<Rightarrow> 'u Option" where
  "WithAttempts k c = c\<lparr>attempts := k\<rparr>"

definition WithOnRetryFn :: "'u OnRetryFn \<Rightarrow> 'u Option" where
  "WithOnRetryFn g c = c\<lparr>onRetryFn := g\<rparr>"

definition WithRetryIfFn :: "'u RetryIfFn \<Rightarrow> 'u Option" where
  "WithRetryIfFn g c = c\<lparr>retryIfFn := g\<rparr>"

definition WithLastErrorOnly :: "bool \<Rightarrow> 'u Option" where
  "WithLastErrorOnly b c = c\<lparr>lastErrorOnly := b\<rparr>"

section \<open>The executor\<close>

text \<open>
  What a run does to the outside is recorded as a list of events, in order: a call of
  the operation with its result, a call of the retry predicate with its answer, a call
  of the callback, a call of the delay function, and a \<^verbatim>\<open>select\<close> with the duration
  awaited and whether the context was done first. The list is the only part of the
  model that is not in the source.
\<close>

datatype event =
    Invoke error
  | RetryIf "64 word" error bool
  | OnRetry "64 word" error
  | Delay "64 word" error
  | Select duration bool

type_synonym 'u outcome = "(panic + error) \<times> 'u world \<times> event list"

text \<open>
  The statements after the loop: the single stored error, or the whole slice (a slice
  converted to \<^verbatim>\<open>error\<close> is never \<^verbatim>\<open>nil\<close>).
\<close>

definition Do_return :: "'u config \<Rightarrow> error list \<Rightarrow> 64 word \<Rightarrow> panic + error" where
  "Do_return cfg errs lastErrIndex =
     (if lastErrorOnly cfg then
        (if unat lastErrIndex < length errs then Inr (errs ! unat lastErrIndex)
         else Inl IndexOutOfRange)
      else Inr (Some (Error errs)))"

text \<open>
  One pass through the body of the loop at index \<open>n\<close>: either the function returns
  (\<open>Return\<close>, which also stands for a \<^verbatim>\<open>break\<close> followed by the statements after the
  loop), or the loop goes on with \<open>n + 1\<close> (\<open>Continue\<close>: the configuration, the slice,
  \<^verbatim>\<open>lastErrIndex\<close>, the world and the events so far). In the \<^verbatim>\<open>select\<close> the operands are
  evaluated in source order: the delay function is called, then \<^verbatim>\<open>cfg.ctx.Done()\<close>, which
  panics on a \<^verbatim>\<open>nil\<close> context.
\<close>

datatype 'u step =
    Return "panic + error" "'u world" "event list"
  | Continue "'u config" "error list" "64 word" "'u world" "event list"

definition Do_body ::
  "('u world \<Rightarrow> error \<times> 'u world) \<Rightarrow> 'u config \<Rightarrow> error list \<Rightarrow> 64 word \<Rightarrow> 64 word \<Rightarrow>
   'u world \<Rightarrow> event list \<Rightarrow> 'u step" where
  "Do_body f cfg errs n lastErrIndex w tr =
     (case f w of (err, w1) \<Rightarrow>
       (let tr1 = tr @ [Invoke err] in
        if err = None then Return (Inr None) w1 tr1
        else
         (let lastErrIndex1 = (if \<not> lastErrorOnly cfg then n else lastErrIndex) in
          (case UnwrapUnrecoverableError err of
             Inl p \<Rightarrow> Return (Inl p) w1 tr1
           | Inr e \<Rightarrow>
              (if \<not> unat lastErrIndex1 < length errs then Return (Inl IndexOutOfRange) w1 tr1
               else
                (let errs1 = errs[unat lastErrIndex1 := e] in
                 (case retryIfFn cfg n err w1 of (again, w2) \<Rightarrow>
                   (let tr2 = tr1 @ [RetryIf n err again] in
                    if \<not> again then Return (Do_return cfg errs1 lastErrIndex1) w2 tr2
                    else
                     (let w3 = onRetryFn cfg n err w2;
                          tr3 = tr2 @ [OnRetry n err] in
                      if n = attempts cfg - 1
                      then Return (Do_return cfg errs1 lastErrIndex1) w3 tr3
                      else
                       (case delayFn cfg n err (delay cfg) w3 of
                          Inl p \<Rightarrow> Return (Inl p) w3 (tr3 @ [Delay n err])
                        | Inr (d, dc, w4) \<Rightarrow>
                           (let cfg1 = cfg\<lparr>delay := dc\<rparr>;
                                tr4 = tr3 @ [Delay n err] in
                            (case ctx cfg1 of
                               None \<Rightarrow> Return (Inl NilDereference) w4 tr4
                             | Some x \<Rightarrow>
                                (case ctx_Done_first x d w4 of (done, w5) \<Rightarrow>
                                  (let tr5 = tr4 @ [Select d done] in
                                   if done then
                                    (case UnwrapUnrecoverableError (ctx_Err x w5) of
                                       Inl p \<Rightarrow> Return (Inl p) w5 tr5
                                     | Inr ce \<Rightarrow>
                                        Return
                                          (Do_return cfg1 (errs1[unat lastErrIndex1 := ce])
                                             lastErrIndex1)
                                          w5 tr5)
                                   else Continue cfg1 errs1 lastErrIndex1 w5 tr5))))))))))))))"

lemma Do_body_attempts:
  "Do_body f cfg errs n i w tr = Continue cfg' errs' i' w' tr' \<Longrightarrow> attempts cfg' = attempts cfg"
  unfolding Do_body_def
  by (auto simp: Let_def split: prod.splits if_splits sum.splits option.splits)

lemma uint_loop_variant: "n < (a :: 64 word) \<Longrightarrow> unat a - unat (n + 1) < unat a - unat n"
  by unat_arith

function Do_loop ::
  "('u world \<Rightarrow> error \<times> 'u world) \<Rightarrow> 'u config \<Rightarrow> error list \<Rightarrow> 64 word \<Rightarrow> 64 word \<Rightarrow>
   'u world \<Rightarrow> event list \<Rightarrow> 'u outcome" where
  "Do_loop f cfg errs n lastErrIndex w tr =
     (if n < attempts cfg then
        (case Do_body f cfg errs n lastErrIndex w tr of
           Return r w' tr' \<Rightarrow> (r, w', tr')
         | Continue cfg' errs' lastErrIndex' w' tr' \<Rightarrow>
             Do_loop f cfg' errs' (n + 1) lastErrIndex' w' tr')
      else (Do_return cfg errs lastErrIndex, w, tr))"
  by pat_completeness auto
termination
  by (relation "measure (\<lambda>(f, cfg, errs, n, i, w, tr). unat (attempts cfg) - unat n)")
     (auto dest: Do_body_attempts simp: uint_loop_variant)

declare Do_loop.simps [simp del]

text \<open>The configuration of a call: the options applied in order to the defaults.\<close>

definition Do_config :: "'u Option list \<Rightarrow> 'u config" where
  "Do_config opts = fold (\<lambda>opt c. opt c) opts newDefaultConfig"

definition Do :: "('u world \<Rightarrow> error \<times> 'u world) \<Rightarrow> 'u Option list \<Rightarrow> 'u world \<Rightarrow> 'u outcome" where
  "Do f opts w =
     (let cfg = Do_config opts in
      (case Context_Err (ctx cfg) w of
         Inl p \<Rightarrow> (Inl p, w, [])
       | Inr (Some err) \<Rightarrow> (Inr (Some err), w, [])
       | Inr None \<Rightarrow>
           if attempts cfg = 0 then (Inr None, w, [])
           else
            (case (if lastErrorOnly cfg then make_Error 1
                   else make_Error (unat (attempts cfg))) of
               Inl p \<Rightarrow> (Inl p, w, [])
             | Inr errs \<Rightarrow> Do_loop f cfg errs 0 0 w [])))"

definition invocations :: "event list \<Rightarrow> nat" where
  "invocations tr = length (filter (\<lambda>ev. case ev of Invoke _ \<Rightarrow> True | _ \<Rightarrow> False) tr)"

subsection \<open>Concrete inputs\<close>

text \<open>
  A world whose caller counts in \<open>vars\<close>, an operation that counts its calls and fails
  with a given error, and a context that is cancelled from the start.
\<close>

definition example_world :: "nat world" where
  "example_world = \<lparr>vars = 0, rand_raw = (\<lambda>i. 7), rand_pos = 0\<rparr>"

definition failing_op :: "error_value \<Rightarrow> nat world \<Rightarrow> error \<times> nat world" where
  "failing_op e w = (Some e, w\<lparr>vars := vars w + 1\<rparr>)"

definition cancelled_ctx :: "nat Context option" where
  "cancelled_ctx =
     Some \<lparr>ctx_Err = (\<lambda>w. Some Canceled), ctx_Done_first = (\<lambda>d w. (True, w))\<rparr>"

section \<open>Entry checks\<close>

lemma invocations_Nil: "invocations [] = 0"
  by (simp add: invocations_def)

lemma Do_config_Nil: "Do_config [] = newDefaultConfig"
  by (simp add: Do_config_def)

lemma Do_config_snoc: "Do_config (opts @ [opt]) = opt (Do_config opts)"
  by (simp add: Do_config_def)

text \<open>
  C4. When the context of the configuration is already cancelled or expired on entry
  (\<^verbatim>\<open>ctx.Err()\<close> returns an error that is not \<^verbatim>\<open>nil\<close>), \<^verbatim>\<open>Do\<close> returns that error, leaves the
  world as it is and records no event: the operation is not invoked. This holds for
  every operation and every list of options, whatever the attempt budget.
\<close>

theorem Do_cancelled_on_entry:
  assumes "Context_Err (ctx (Do_config opts)) w = Inr (Some err)"
  shows "Do f opts w = (Inr (Some err), w, []) \<and> invocations (snd (snd (Do f opts w))) = 0"
  using assms by (simp add: Do_def invocations_Nil)

theorem Do_cancelled_on_entry_witness:
  "Do (failing_op (errorString 0 ''error'')) [WithContext cancelled_ctx] example_world
     = (Inr (Some Canceled), example_world, [])
   \<and> invocations (snd (snd (Do (failing_op (errorString 0 ''error''))
        [WithContext cancelled_ctx] example_world))) = 0"
proof -
  have "Context_Err (ctx (Do_config [WithContext cancelled_ctx])) example_world
          = Inr (Some Canceled)"
    by (simp add: Do_config_def WithContext_def cancelled_ctx_def Context_Err_def)
  from Do_cancelled_on_entry [OF this] show ?thesis .
qed

text \<open>
  C5, as the code has it. With an attempt budget of zero \<^verbatim>\<open>Do\<close> never invokes the
  operation and leaves the world as it is, whatever the options are. What it returns is
  decided by the context alone, which is read before the budget: \<^verbatim>\<open>nil\<close> when the context
  is not cancelled on entry, the error of the context when it is, and the call panics
  when the context is \<^verbatim>\<open>nil\<close>.
\<close>

theorem Do_zero_attempts:
  assumes "attempts (Do_config opts) = 0"
  shows "Do f opts w =
           (case ctx (Do_config opts) of
              None \<Rightarrow> Inl NilDereference
            | Some x \<Rightarrow>
               (case ctx_Err x w of
                  None \<Rightarrow> Inr None
                | Some err \<Rightarrow> Inr (Some err)), w, [])
         \<and> invocations (snd (snd (Do f opts w))) = 0"
  using assms
  by (simp add: Do_def Context_Err_def invocations_Nil split: option.splits)

theorem Do_zero_attempts_witness:
  "Do (failing_op (errorString 0 ''error'')) [WithAttempts 0] example_world
     = (Inr None, example_world, [])
   \<and> invocations (snd (snd (Do (failing_op (errorString 0 ''error''))
        [WithAttempts 0] example_world))) = 0"
proof -
  have a: "attempts (Do_config [WithAttempts 0] :: nat config) = 0"
    by (simp add: Do_config_def WithAttempts_def)
  have c: "ctx (Do_config [WithAttempts 0] :: nat config) = Background"
    by (simp add: Do_config_def WithAttempts_def newDefaultConfig_def)
  from Do_zero_attempts [OF a, of "failing_op (errorString 0 ''error'')" example_world] c
  show ?thesis by (simp add: invocations_Nil Background_def)
qed

text \<open>
  The claim C5 as stated fails: with a budget of zero and a context that is already
  cancelled, \<^verbatim>\<open>Do\<close> returns \<^verbatim>\<open>context.Canceled\<close>, not \<^verbatim>\<open>nil\<close>.
\<close>

theorem Do_zero_attempts_counterexample:
  "attempts (Do_config [WithAttempts 0, WithContext cancelled_ctx]) = 0
   \<and> fst (Do (failing_op (errorString 0 ''error''))
            [WithAttempts 0, WithContext cancelled_ctx] example_world) = Inr (Some Canceled)
   \<and> fst (Do (failing_op (errorString 0 ''error''))
            [WithAttempts 0, WithContext cancelled_ctx] example_world) \<noteq> Inr None"
  by (simp add: Do_def Do_config_def WithAttempts_def WithContext_def cancelled_ctx_def
        Context_Err_def)

end
